theory Spec2Isabelle
  imports Complex_Main "HOL-Library.AList"
begin

section \<open>The Docker Hub backend of Perceval (perceval/backends/core/dockerhub.py)\<close>

text \<open>
  The module is a thin adapter: it builds one URL, asks the HTTP client of the host
  framework for it, reads the clock, parses the body as JSON, stores the time under
  the key \<open>fetched_on\<close> and yields the resulting dictionary. The model keeps every
  effect of that sequence as an event, in the order the code performs it, and every
  exception as a value.
\<close>

subsection \<open>JSON values, exceptions, effects\<close>

text \<open>
  What \<open>json.loads\<close> returns. A Python dictionary keeps its keys in insertion
  order and holds each key once, so an object is an association list; the floats are
  carried around and never computed with. With its default arguments \<open>json.loads\<close>
  also reads the literals \<open>NaN\<close>, \<open>Infinity\<close> and \<open>-Infinity\<close>, which the JSON
  grammar does not have, as the floats that are no numbers: the last three
  constructors.
\<close>

datatype json =
    JNull
  | JBool bool
  | JInt int
  | JFloat real
  | JStr string
  | JArr "json list"
  | JObj "(string \<times> json) list"
  | JNaN
  | JInfinity
  | JNegInfinity

datatype error =
    HTTPError nat
  | ConnectionError
  | JSONDecodeError
  | TypeError
  | KeyError string
  | AttributeError
  | BackendError string

text \<open>The object returned by \<open>HttpClient.fetch\<close>; the module reads its \<open>text\<close> only.\<close>

record response =
  resp_text :: string

text \<open>
  The effects of the module, as it performs them: a call of \<open>logger.info\<close> or
  \<open>logger.debug\<close> with its format string and arguments, a call of
  \<open>HttpClient.fetch\<close> with its URL (the only argument the module passes), a reading
  of the clock, and a value handed to the consumer of the generator.
\<close>

datatype event =
    LogInfo string "string list"
  | LogDebug string "string list"
  | HttpFetch string
  | UtcNow real
  | Yield json

text \<open>
  The world the module runs in, for one invocation: what \<open>HttpClient.fetch\<close> does
  with a URL (it returns a response or raises), what
  \<open>datetime_utcnow().timestamp()\<close> reads, and what \<open>json.loads\<close> makes of a text
  (a value, or an exception). None of the three is code of this module.
\<close>

record env =
  http_fetch :: "string \<Rightarrow> error + response"
  utcnow_timestamp :: real
  json_loads :: "string \<Rightarrow> error + json"

fun yielded :: "event list \<Rightarrow> json list" where
  "yielded [] = []"
| "yielded (Yield item # es) = item # yielded es"
| "yielded (_ # es) = yielded es"

fun requests :: "event list \<Rightarrow> string list" where
  "requests [] = []"
| "requests (HttpFetch url # es) = url # requests es"
| "requests (_ # es) = requests es"

subsection \<open>Python's item access\<close>

text \<open>
  \<open>d[k] = v\<close>: a dictionary replaces the value of a key it has, in place, and appends
  a key it has not; every other JSON value (list, string, number, boolean, None)
  raises TypeError for a string key.
\<close>

fun setitem :: "json \<Rightarrow> string \<Rightarrow> json \<Rightarrow> error + json" where
  "setitem (JObj kvs) k v = Inr (JObj (AList.update k v kvs))"
| "setitem _ k v = Inl TypeError"

text \<open>\<open>d[k]\<close>: KeyError on a dictionary without the key, TypeError on the other values.\<close>

fun getitem :: "json \<Rightarrow> string \<Rightarrow> error + json" where
  "getitem (JObj kvs) k = (case map_of kvs k of None \<Rightarrow> Inl (KeyError k) | Some v \<Rightarrow> Inr v)"
| "getitem _ k = Inl TypeError"

fun is_dict :: "json \<Rightarrow> bool" where
  "is_dict (JObj kvs) = True"
| "is_dict _ = False"

text \<open>
  The values that a JSON text can denote (RFC 8259): every number is finite, in
  arrays and objects as well.
\<close>

fun json_value :: "json \<Rightarrow> bool" where
  "json_value JNaN = False"
| "json_value JInfinity = False"
| "json_value JNegInfinity = False"
| "json_value (JArr xs) = list_all json_value xs"
| "json_value (JObj kvs) = list_all (\<lambda>kv. json_value (snd kv)) kvs"
| "json_value _ = True"

fun count_key :: "string \<Rightarrow> (string \<times> json) list \<Rightarrow> nat" where
  "count_key k [] = 0"
| "count_key k ((k', v) # kvs) = (if k' = k then Suc (count_key k kvs) else count_key k kvs)"

subsection \<open>Joining the parts of a URI\<close>

text \<open>
  Modelled from the spec: \<open>urijoin\<close> is imported from \<open>grimoirelab_toolkit.uris\<close>,
  which is not among the sources. It joins its arguments into one URI as if they were
  the parts of a path: the slashes at the two ends of every argument are removed, and
  the arguments are put together with one slash between neighbours.
\<close>

definition strip_slashes :: "string \<Rightarrow> string" where
  "strip_slashes s =
     rev (dropWhile (\<lambda>c. c = CHR ''/'') (rev (dropWhile (\<lambda>c. c = CHR ''/'') s)))"

fun join_with :: "string \<Rightarrow> string list \<Rightarrow> string" where
  "join_with sep [] = []"
| "join_with sep [x] = x"
| "join_with sep (x # y # ys) = x @ sep @ join_with sep (y # ys)"

definition urijoin :: "string list \<Rightarrow> string" where
  "urijoin args = join_with ''/'' (map strip_slashes args)"

text \<open>A string that neither begins nor ends with a slash: a plain path segment.\<close>

definition plain_segment :: "string \<Rightarrow> bool" where
  "plain_segment s = (s = [] \<or> (hd s \<noteq> CHR ''/'' \<and> last s \<noteq> CHR ''/''))"

subsection \<open>Module constants\<close>

definition CATEGORY_DOCKERHUB_DATA :: string where
  "CATEGORY_DOCKERHUB_DATA = ''dockerhub-data''"

definition DOCKERHUB_URL :: string where
  "DOCKERHUB_URL = ''https://hub.docker.com/''"

definition DOCKERHUB_API_URL :: string where
  "DOCKERHUB_API_URL = urijoin [DOCKERHUB_URL, ''v2'']"

definition DOCKER_OWNER :: string where
  "DOCKER_OWNER = ''library''"

definition DOCKER_SHORTCUT_OWNER :: string where
  "DOCKER_SHORTCUT_OWNER = ''_''"

definition CATEGORIES :: "string list" where
  "CATEGORIES = [CATEGORY_DOCKERHUB_DATA]"

definition RREPOSITORY :: string where
  "RREPOSITORY = ''repositories''"

subsection \<open>DockerHubClient\<close>

text \<open>
  Archive objects belong to the host framework; the module only hands them on.
\<close>

typedecl archive

text \<open>
  The constructor passes \<open>DOCKERHUB_API_URL\<close> to \<open>HttpClient.__init__\<close>, from where
  \<open>repository\<close> reads it back as \<open>self.base_url\<close>.
\<close>

record DockerHubClient =
  base_url :: string
  client_archive :: "archive option"
  from_archive :: bool

definition DockerHubClient_init :: "archive option \<Rightarrow> bool \<Rightarrow> DockerHubClient" where
  "DockerHubClient_init archive0 from_archive0 =
     \<lparr>base_url = DOCKERHUB_API_URL, client_archive = archive0, from_archive = from_archive0\<rparr>"

text \<open>
  \<open>DockerHubClient.repository\<close>: the URL, the debug line, the request. The result is
  the text of the response, or the exception \<open>HttpClient.fetch\<close> raised, together with
  the events in their order.
\<close>

definition DockerHubClient_repository ::
  "env \<Rightarrow> DockerHubClient \<Rightarrow> string \<Rightarrow> string \<Rightarrow> (error + string) \<times> event list" where
  "DockerHubClient_repository w self owner0 repository0 =
     (let url = urijoin [base_url self, RREPOSITORY, owner0, repository0];
          es = [LogDebug ''DockerHub client requests: %s'' [url], HttpFetch url]
      in case http_fetch w url of
           Inl e \<Rightarrow> (Inl e, es)
         | Inr response \<Rightarrow> (Inr (resp_text response), es))"

subsection \<open>DockerHub\<close>

text \<open>
  The fields the module assigns or reads: \<open>origin\<close> and \<open>archive\<close> are stored by the
  base class constructor, \<open>owner\<close>, \<open>repository\<close> and \<open>client\<close> by the constructor of
  the class itself. The \<open>tag\<close> is forwarded to the base class and not read again here.
\<close>

record DockerHub =
  origin :: string
  archive :: "archive option"
  owner :: string
  repository :: string
  client :: "DockerHubClient option"

definition DockerHub_init ::
  "string \<Rightarrow> string \<Rightarrow> string option \<Rightarrow> archive option \<Rightarrow> DockerHub" where
  "DockerHub_init owner0 repository0 tag0 archive0 =
     (let owner1 = (if owner0 = DOCKER_SHORTCUT_OWNER then DOCKER_OWNER else owner0);
          origin1 = urijoin [DOCKERHUB_URL, owner1, repository0]
      in \<lparr>origin = origin1, archive = archive0, owner = owner1,
          repository = repository0, client = None\<rparr>)"

definition parse_json :: "env \<Rightarrow> string \<Rightarrow> error + json" where
  "parse_json w raw_json = json_loads w raw_json"

definition init_client :: "DockerHub \<Rightarrow> bool \<Rightarrow> DockerHubClient" where
  "init_client self from_archive0 = DockerHubClient_init (archive self) from_archive0"

text \<open>
  \<open>DockerHub.fetch_items\<close>, run to its end by a consumer of the generator. The result
  is the exception that ended the run (\<open>None\<close> when the generator was exhausted) and
  the events of the run. \<open>self.client\<close> is \<open>None\<close> until the base class sets it, and
  calling a method on \<open>None\<close> raises AttributeError.
\<close>

definition fetch_items :: "env \<Rightarrow> DockerHub \<Rightarrow> string \<Rightarrow> error option \<times> event list" where
  "fetch_items w self category =
     (let es0 = [LogInfo ''Fetching data from '%s' repository of '%s' owner''
                   [repository self, owner self]]
      in case client self of
           None \<Rightarrow> (Some AttributeError, es0)
         | Some c \<Rightarrow>
             (case DockerHubClient_repository w c (owner self) (repository self) of
                (Inl e, es1) \<Rightarrow> (Some e, es0 @ es1)
              | (Inr raw_data, es1) \<Rightarrow>
                  (let fetched_on = utcnow_timestamp w;
                       es2 = es0 @ es1 @ [UtcNow fetched_on]
                   in case parse_json w raw_data of
                        Inl e \<Rightarrow> (Some e, es2)
                      | Inr data \<Rightarrow>
                          (case setitem data ''fetched_on'' (JFloat fetched_on) of
                             Inl e \<Rightarrow> (Some e, es2)
                           | Inr data' \<Rightarrow>
                               (None, es2 @ [Yield data',
                                             LogInfo ''Fetch process completed'' []])))))"

definition has_archiving :: bool where
  "has_archiving = True"

definition has_resuming :: bool where
  "has_resuming = True"

text \<open>
  The metadata accessors. \<open>str\<close> is Python's conversion to a string, a parameter of
  the model.
\<close>

definition metadata_id :: "(json \<Rightarrow> string) \<Rightarrow> json \<Rightarrow> error + string" where
  "metadata_id str item =
     (case getitem item ''fetched_on'' of Inl e \<Rightarrow> Inl e | Inr v \<Rightarrow> Inr (str v))"

definition metadata_updated_on :: "json \<Rightarrow> error + json" where
  "metadata_updated_on item = getitem item ''fetched_on''"

definition metadata_category :: "json \<Rightarrow> string" where
  "metadata_category item = CATEGORY_DOCKERHUB_DATA"

text \<open>
  Modelled from the spec: \<open>Backend.fetch\<close> of the base class (perceval/backend.py is
  not among the sources). It validates that the category is one of the categories of
  the connector, rejecting any other before any network call is made, and delegates
  to the item-fetch operation, on the client that \<open>_init_client\<close> builds.
\<close>

definition Backend_fetch :: "env \<Rightarrow> DockerHub \<Rightarrow> string \<Rightarrow> error option \<times> event list" where
  "Backend_fetch w self category =
     (if category \<notin> set CATEGORIES
      then (Some (BackendError category), [])
      else fetch_items w (self\<lparr>client := Some (init_client self False)\<rparr>) category)"

text \<open>
  \<open>DockerHub.fetch\<close>: the category defaults to \<open>CATEGORY_DOCKERHUB_DATA\<close>, and the call
  goes to the base class with no further argument.
\<close>

definition fetch :: "env \<Rightarrow> DockerHub \<Rightarrow> string option \<Rightarrow> error option \<times> event list" where
  "fetch w self category =
     Backend_fetch w self (case category of None \<Rightarrow> CATEGORY_DOCKERHUB_DATA | Some c \<Rightarrow> c)"

subsection \<open>A concrete world\<close>

text \<open>
  A registry with five repositories: library/python answers with a small object,
  examples/stamped with an object that has a \<open>fetched_on\<close> of its own,
  examples/array with a JSON array, examples/html with a page that is no JSON and
  that \<open>json.loads\<close> refuses, and examples/nan with a text that is no JSON either
  (it has the literal \<open>NaN\<close>) and that \<open>json.loads\<close> reads all the same.
  Every other request is answered with status 404. The clock reads 1600000000.
\<close>

definition python_body :: string where
  \<open>python_body = ''{"name": "python", "pull_count": 100}''\<close>

definition python_payload :: "(string \<times> json) list" where
  "python_payload = [(''name'', JStr ''python''), (''pull_count'', JInt 100)]"

definition stamped_body :: string where
  \<open>stamped_body = ''{"fetched_on": 1, "name": "stamped"}''\<close>

definition stamped_payload :: "(string \<times> json) list" where
  "stamped_payload = [(''fetched_on'', JInt 1), (''name'', JStr ''stamped'')]"

definition nan_body :: string where
  \<open>nan_body = ''{"pull_count": NaN}''\<close>

definition nan_payload :: "(string \<times> json) list" where
  "nan_payload = [(''pull_count'', JNaN)]"

definition example_http :: "string \<Rightarrow> error + response" where
  "example_http url =
     (if url = ''https://hub.docker.com/v2/repositories/library/python''
        then Inr \<lparr>resp_text = python_body\<rparr>
      else if url = ''https://hub.docker.com/v2/repositories/examples/stamped''
        then Inr \<lparr>resp_text = stamped_body\<rparr>
      else if url = ''https://hub.docker.com/v2/repositories/examples/array''
        then Inr \<lparr>resp_text = ''[1]''\<rparr>
      else if url = ''https://hub.docker.com/v2/repositories/examples/html''
        then Inr \<lparr>resp_text = ''<html>''\<rparr>
      else if url = ''https://hub.docker.com/v2/repositories/examples/nan''
        then Inr \<lparr>resp_text = nan_body\<rparr>
      else Inl (HTTPError 404))"

definition example_loads :: "string \<Rightarrow> error + json" where
  "example_loads s =
     (if s = python_body then Inr (JObj python_payload)
      else if s = stamped_body then Inr (JObj stamped_payload)
      else if s = ''[1]'' then Inr (JArr [JInt 1])
      else if s = nan_body then Inr (JObj nan_payload)
      else Inl JSONDecodeError)"

definition example_env :: env where
  "example_env =
     \<lparr>http_fetch = example_http, utcnow_timestamp = 1600000000, json_loads = example_loads\<rparr>"

definition example_str :: "json \<Rightarrow> string" where
  "example_str v = (if v = JFloat 1600000000 then ''1600000000.0'' else ''None'')"

definition example_client :: DockerHubClient where
  "example_client = DockerHubClient_init None False"

definition example_backend :: "string \<Rightarrow> string \<Rightarrow> DockerHub" where
  "example_backend owner0 repository0 =
     (DockerHub_init owner0 repository0 None None)\<lparr>client := Some example_client\<rparr>"

section \<open>Properties\<close>

subsection \<open>URIs\<close>

lemma DOCKERHUB_API_URL_value: "DOCKERHUB_API_URL = ''https://hub.docker.com/v2''"
  by (simp add: DOCKERHUB_API_URL_def DOCKERHUB_URL_def urijoin_def strip_slashes_def)

lemma dropWhile_hd_other: "xs \<noteq> [] \<Longrightarrow> hd xs \<noteq> c \<Longrightarrow> dropWhile (\<lambda>x. x = c) xs = xs"
  by (cases xs) simp_all

lemma strip_slashes_plain: "plain_segment s \<Longrightarrow> strip_slashes s = s"
proof (cases "s = []")
  case True
  then show ?thesis by (simp add: strip_slashes_def)
next
  case False
  assume "plain_segment s"
  with False have h: "hd s \<noteq> CHR ''/''" and l: "hd (rev s) \<noteq> CHR ''/''"
    by (simp_all add: plain_segment_def hd_rev)
  from False h have "dropWhile (\<lambda>x. x = CHR ''/'') s = s"
    by (rule dropWhile_hd_other)
  moreover from False l have "dropWhile (\<lambda>x. x = CHR ''/'') (rev s) = rev s"
    by (intro dropWhile_hd_other) simp_all
  ultimately show ?thesis by (simp add: strip_slashes_def)
qed

subsection \<open>Dictionaries\<close>

lemma getitem_update: "getitem (JObj (AList.update k v kvs)) k = Inr v"
  by (simp add: update_conv')

lemma count_key_absent: "k \<notin> fst ` set kvs \<Longrightarrow> count_key k kvs = 0"
  by (induction kvs) auto

lemma count_key_update_absent:
  "k \<notin> fst ` set kvs \<Longrightarrow> count_key k (AList.update k v kvs) = 1"
  by (induction kvs) auto

lemma count_key_update: "distinct (map fst kvs) \<Longrightarrow> count_key k (AList.update k v kvs) = 1"
  by (induction kvs) (auto simp: count_key_absent count_key_update_absent)

subsection \<open>What a run yields\<close>

text \<open>
  Whatever a run of \<open>fetch_items\<close> yields was made from a response the client
  returned and a dictionary the parser made of its text.
\<close>

lemma fetch_items_yielded:
  "item \<in> set (yielded (snd (fetch_items w self category))) \<Longrightarrow>
   \<exists>c resp kvs. client self = Some c
     \<and> http_fetch w (urijoin [base_url c, RREPOSITORY, owner self, repository self]) = Inr resp
     \<and> json_loads w (resp_text resp) = Inr (JObj kvs)
     \<and> item = JObj (AList.update ''fetched_on'' (JFloat (utcnow_timestamp w)) kvs)"
  by (auto simp: fetch_items_def DockerHubClient_repository_def parse_json_def Let_def
      split: option.splits sum.splits prod.splits elim!: setitem.elims)

lemmas example_defs = fetch_items_def example_backend_def DockerHub_init_def example_client_def
  DockerHubClient_init_def DockerHubClient_repository_def DOCKERHUB_API_URL_value
  DOCKER_SHORTCUT_OWNER_def DOCKER_OWNER_def RREPOSITORY_def urijoin_def strip_slashes_def
  example_env_def example_http_def example_loads_def parse_json_def python_body_def
  python_payload_def stamped_body_def stamped_payload_def nan_body_def nan_payload_def
  DOCKERHUB_URL_def Let_def
  CATEGORY_DOCKERHUB_DATA_def

text \<open>The run of the connector for \<open>_/python\<close> in the concrete world, event by event.\<close>

lemma python_run:
  "fetch_items example_env (example_backend ''_'' ''python'') ''dockerhub-data'' =
     (None,
      [LogInfo ''Fetching data from '%s' repository of '%s' owner'' [''python'', ''library''],
       LogDebug ''DockerHub client requests: %s''
         [''https://hub.docker.com/v2/repositories/library/python''],
       HttpFetch ''https://hub.docker.com/v2/repositories/library/python'',
       UtcNow 1600000000,
       Yield (JObj [(''name'', JStr ''python''), (''pull_count'', JInt 100),
                    (''fetched_on'', JFloat 1600000000)]),
       LogInfo ''Fetch process completed'' []])"
  by (simp add: example_defs)

text \<open>The run for \<open>examples/stamped\<close>, whose payload has a \<open>fetched_on\<close> of its own.\<close>

lemma stamped_run:
  "fetch_items example_env (example_backend ''examples'' ''stamped'') ''dockerhub-data'' =
     (None,
      [LogInfo ''Fetching data from '%s' repository of '%s' owner'' [''stamped'', ''examples''],
       LogDebug ''DockerHub client requests: %s''
         [''https://hub.docker.com/v2/repositories/examples/stamped''],
       HttpFetch ''https://hub.docker.com/v2/repositories/examples/stamped'',
       UtcNow 1600000000,
       Yield (JObj [(''fetched_on'', JFloat 1600000000), (''name'', JStr ''stamped'')]),
       LogInfo ''Fetch process completed'' []])"
  by (simp add: example_defs)

text \<open>
  The run for \<open>examples/nan\<close>: the body is read, stamped and yielded, and the run ends
  without an exception.
\<close>

lemma nan_run:
  "fetch_items example_env (example_backend ''examples'' ''nan'') ''dockerhub-data'' =
     (None,
      [LogInfo ''Fetching data from '%s' repository of '%s' owner'' [''nan'', ''examples''],
       LogDebug ''DockerHub client requests: %s''
         [''https://hub.docker.com/v2/repositories/examples/nan''],
       HttpFetch ''https://hub.docker.com/v2/repositories/examples/nan'',
       UtcNow 1600000000,
       Yield (JObj [(''pull_count'', JNaN), (''fetched_on'', JFloat 1600000000)]),
       LogInfo ''Fetch process completed'' []])"
  by (simp add: example_defs)

text \<open>The URL of a repository, with the base URL and the fixed segment written out.\<close>

lemma urijoin_repository:
  "urijoin [DOCKERHUB_API_URL, RREPOSITORY, owner0, repository0]
     = ''https://hub.docker.com/v2/repositories/'' @ strip_slashes owner0 @ ''/''
         @ strip_slashes repository0"
  by (simp add: DOCKERHUB_API_URL_value RREPOSITORY_def urijoin_def strip_slashes_def)

section \<open>The claims\<close>

text \<open>
  C9. For every item, \<open>metadata_category\<close> returns the constant string
  "dockerhub-data", whatever the item holds.
\<close>

theorem metadata_category_constant: "metadata_category item = ''dockerhub-data''"
  by (simp add: metadata_category_def CATEGORY_DOCKERHUB_DATA_def)

text \<open>
  C3. For every repository string, the connector built with owner "_" has the origin
  and the stored owner of the connector built with owner "library" and the same
  repository; the stored owner is "library", and owner "_" with repository "python"
  gives the origin https://hub.docker.com/library/python.
\<close>

theorem shortcut_owner_is_library:
  "origin (DockerHub_init ''_'' repository0 tag0 archive0)
     = origin (DockerHub_init ''library'' repository0 tag0 archive0)
   \<and> owner (DockerHub_init ''_'' repository0 tag0 archive0)
     = owner (DockerHub_init ''library'' repository0 tag0 archive0)
   \<and> owner (DockerHub_init ''_'' repository0 tag0 archive0) = ''library''
   \<and> origin (DockerHub_init ''_'' ''python'' tag0 archive0)
     = ''https://hub.docker.com/library/python''"
  by (simp add: DockerHub_init_def DOCKER_SHORTCUT_OWNER_def DOCKER_OWNER_def DOCKERHUB_URL_def
      urijoin_def strip_slashes_def)

text \<open>
  C1. Every successful run of \<open>fetch_items\<close> yields exactly one record. The record
  has a \<open>fetched_on\<close> field whose value is the reading of the clock, and that reading
  is taken after the request of \<open>client.repository\<close> has returned and before the record
  is yielded: the events of a successful run are, in this order, the opening log line,
  the debug line, the request, the reading of the clock, the yield and the closing log
  line.
\<close>

theorem fetch_items_success:
  assumes "fetch_items w self category = (None, es)"
  shows "\<exists>c item. client self = Some c
     \<and> yielded es = [item]
     \<and> getitem item ''fetched_on'' = Inr (JFloat (utcnow_timestamp w))
     \<and> es = [LogInfo ''Fetching data from '%s' repository of '%s' owner''
                [repository self, owner self],
              LogDebug ''DockerHub client requests: %s''
                [urijoin [base_url c, RREPOSITORY, owner self, repository self]],
              HttpFetch (urijoin [base_url c, RREPOSITORY, owner self, repository self]),
              UtcNow (utcnow_timestamp w),
              Yield item,
              LogInfo ''Fetch process completed'' []]"
  using assms
  by (auto simp: fetch_items_def DockerHubClient_repository_def parse_json_def Let_def update_conv'
      split: option.splits sum.splits prod.splits elim!: setitem.elims)

theorem fetch_items_success_witness:
  "fst (fetch_items example_env (example_backend ''_'' ''python'') ''dockerhub-data'') = None
   \<and> yielded (snd (fetch_items example_env (example_backend ''_'' ''python'') ''dockerhub-data''))
     = [JObj [(''name'', JStr ''python''), (''pull_count'', JInt 100),
              (''fetched_on'', JFloat 1600000000)]]
   \<and> (\<exists>item. yielded (snd (fetch_items example_env (example_backend ''_'' ''python'')
                 ''dockerhub-data'')) = [item]
        \<and> getitem item ''fetched_on'' = Inr (JFloat (utcnow_timestamp example_env)))"
proof -
  from fetch_items_success [OF python_run]
  obtain item where "yielded (snd (fetch_items example_env (example_backend ''_'' ''python'')
                 ''dockerhub-data'')) = [item]"
    and "getitem item ''fetched_on'' = Inr (JFloat (utcnow_timestamp example_env))"
    by (auto simp: python_run)
  then show ?thesis by (simp add: python_run)
qed

text \<open>
  C2. Every record that \<open>fetch_items\<close> emits is the dictionary parsed from the
  response with \<open>fetched_on\<close> set to the local reading of the clock: as a map it is
  the upstream payload updated at \<open>fetched_on\<close>, so reading \<open>fetched_on\<close> gives the
  local time whatever the payload held under that key, and (the keys of a dictionary
  being distinct) the record has the key \<open>fetched_on\<close> exactly once.
\<close>

theorem fetch_items_record:
  assumes "item \<in> set (yielded (snd (fetch_items w self category)))"
  shows "\<exists>c resp kvs. client self = Some c
     \<and> http_fetch w (urijoin [base_url c, RREPOSITORY, owner self, repository self]) = Inr resp
     \<and> json_loads w (resp_text resp) = Inr (JObj kvs)
     \<and> item = JObj (AList.update ''fetched_on'' (JFloat (utcnow_timestamp w)) kvs)
     \<and> map_of (AList.update ''fetched_on'' (JFloat (utcnow_timestamp w)) kvs)
         = (map_of kvs)(''fetched_on'' \<mapsto> JFloat (utcnow_timestamp w))
     \<and> getitem item ''fetched_on'' = Inr (JFloat (utcnow_timestamp w))
     \<and> (distinct (map fst kvs) \<longrightarrow>
          count_key ''fetched_on'' (AList.update ''fetched_on'' (JFloat (utcnow_timestamp w)) kvs) = 1)"
proof -
  from fetch_items_yielded [OF assms] obtain c resp kvs where
    h: "client self = Some c"
       "http_fetch w (urijoin [base_url c, RREPOSITORY, owner self, repository self]) = Inr resp"
       "json_loads w (resp_text resp) = Inr (JObj kvs)"
       "item = JObj (AList.update ''fetched_on'' (JFloat (utcnow_timestamp w)) kvs)"
    by blast
  show ?thesis
    apply (rule exI [of _ c], rule exI [of _ resp], rule exI [of _ kvs])
    using h by (simp add: update_conv' count_key_update)
qed

theorem fetch_items_record_witness:
  "JObj [(''fetched_on'', JFloat 1600000000), (''name'', JStr ''stamped'')]
     \<in> set (yielded (snd (fetch_items example_env (example_backend ''examples'' ''stamped'')
          ''dockerhub-data'')))
   \<and> json_loads example_env stamped_body
       = Inr (JObj [(''fetched_on'', JInt 1), (''name'', JStr ''stamped'')])
   \<and> getitem (JObj [(''fetched_on'', JFloat 1600000000), (''name'', JStr ''stamped'')])
        ''fetched_on'' = Inr (JFloat (utcnow_timestamp example_env))
   \<and> count_key ''fetched_on'' [(''fetched_on'', JFloat 1600000000), (''name'', JStr ''stamped'')] = 1"
proof -
  have m: "JObj [(''fetched_on'', JFloat 1600000000), (''name'', JStr ''stamped'')]
     \<in> set (yielded (snd (fetch_items example_env (example_backend ''examples'' ''stamped'')
          ''dockerhub-data'')))"
    by (simp add: stamped_run)
  from fetch_items_record [OF m]
  have "getitem (JObj [(''fetched_on'', JFloat 1600000000), (''name'', JStr ''stamped'')])
        ''fetched_on'' = Inr (JFloat (utcnow_timestamp example_env))"
    by blast
  with m show ?thesis
    by (simp add: example_env_def example_loads_def stamped_body_def stamped_payload_def
        python_body_def)
qed

text \<open>
  C4, as amended. \<open>DockerHubClient.repository\<close> makes exactly one request, to the URL
  that \<open>urijoin\<close> forms from the API base URL, the segment "repositories", the owner
  and the repository, and passes nothing but that URL. The URL is
  https://hub.docker.com/v2/repositories/ followed by the owner and the repository
  without the slashes at their ends; when neither of them begins or ends with a slash
  it is https://hub.docker.com/v2/repositories/{owner}/{repository}. With a slash at
  an end of a component the two differ, as the request for repository "python/" shows.
\<close>

theorem repository_request_url:
  "requests (snd (DockerHubClient_repository w (DockerHubClient_init archive0 from_archive0)
       owner0 repository0))
     = [urijoin [DOCKERHUB_API_URL, RREPOSITORY, owner0, repository0]]
   \<and> urijoin [DOCKERHUB_API_URL, RREPOSITORY, owner0, repository0]
     = ''https://hub.docker.com/v2/repositories/'' @ strip_slashes owner0 @ ''/''
         @ strip_slashes repository0
   \<and> (plain_segment owner0 \<and> plain_segment repository0 \<longrightarrow>
        requests (snd (DockerHubClient_repository w (DockerHubClient_init archive0 from_archive0)
          owner0 repository0))
        = [''https://hub.docker.com/v2/repositories/'' @ owner0 @ ''/'' @ repository0])"
proof -
  have r: "requests (snd (DockerHubClient_repository w
       (DockerHubClient_init archive0 from_archive0) owner0 repository0))
     = [urijoin [DOCKERHUB_API_URL, RREPOSITORY, owner0, repository0]]"
    by (simp add: DockerHubClient_repository_def DockerHubClient_init_def Let_def
        split: sum.splits)
  show ?thesis
    by (simp only: r urijoin_repository) (simp add: strip_slashes_plain)
qed

theorem repository_request_url_witness:
  "plain_segment ''library'' \<and> plain_segment ''python''
   \<and> requests (snd (DockerHubClient_repository example_env (DockerHubClient_init None False)
        ''library'' ''python''))
     = [''https://hub.docker.com/v2/repositories/library/python'']"
proof -
  have p: "plain_segment ''library'' \<and> plain_segment ''python''"
    by (simp add: plain_segment_def)
  from repository_request_url [of example_env None False "''library''" "''python''"]
  have "plain_segment ''library'' \<and> plain_segment ''python'' \<longrightarrow>
      requests (snd (DockerHubClient_repository example_env (DockerHubClient_init None False)
        ''library'' ''python''))
      = [''https://hub.docker.com/v2/repositories/'' @ ''library'' @ ''/'' @ ''python'']"
    by (elim conjE)
  with p show ?thesis by simp
qed

theorem repository_trailing_slash_counterexample:
  "requests (snd (DockerHubClient_repository example_env example_client ''library'' ''python/''))
     = [''https://hub.docker.com/v2/repositories/library/python'']
   \<and> requests (snd (DockerHubClient_repository example_env example_client ''library'' ''python/''))
     \<noteq> [''https://hub.docker.com/v2/repositories/'' @ ''library'' @ ''/'' @ ''python/'']"
  by (simp add: example_defs)

text \<open>
  C5. If \<open>HttpClient.fetch\<close>, called by \<open>client.repository\<close>, raises (a connection
  failure, a status that is no success), \<open>fetch_items\<close> ends with that same exception
  and yields no record.
\<close>

theorem fetch_items_http_error:
  assumes "client self = Some c"
    and "http_fetch w (urijoin [base_url c, RREPOSITORY, owner self, repository self]) = Inl e"
  shows "fst (fetch_items w self category) = Some e
     \<and> yielded (snd (fetch_items w self category)) = []"
  using assms by (simp add: fetch_items_def DockerHubClient_repository_def Let_def)

theorem fetch_items_http_error_witness:
  "client (example_backend ''examples'' ''missing'') = Some example_client
   \<and> http_fetch example_env (urijoin [base_url example_client, RREPOSITORY,
        owner (example_backend ''examples'' ''missing''),
        repository (example_backend ''examples'' ''missing'')]) = Inl (HTTPError 404)
   \<and> fst (fetch_items example_env (example_backend ''examples'' ''missing'') ''dockerhub-data'')
       = Some (HTTPError 404)
   \<and> yielded (snd (fetch_items example_env (example_backend ''examples'' ''missing'')
        ''dockerhub-data'')) = []"
proof -
  have a: "client (example_backend ''examples'' ''missing'') = Some example_client"
    by (simp add: example_backend_def)
  have b: "http_fetch example_env (urijoin [base_url example_client, RREPOSITORY,
        owner (example_backend ''examples'' ''missing''),
        repository (example_backend ''examples'' ''missing'')]) = Inl (HTTPError 404)"
    by (simp add: example_defs)
  from fetch_items_http_error [OF a b] a b show ?thesis by simp
qed

text \<open>
  C6, as amended. If \<open>json.loads\<close> raises on the body of the response,
  \<open>fetch_items\<close> ends with that parse error and yields no record. A body that is
  not valid JSON does not always make \<open>json.loads\<close> raise: the text
  \<open>{"pull_count": NaN}\<close> is outside the JSON grammar, yet \<open>json.loads\<close> returns a
  dictionary for it, and the run yields one record and ends without an exception.
\<close>

theorem fetch_items_parse_error:
  assumes "client self = Some c"
    and "http_fetch w (urijoin [base_url c, RREPOSITORY, owner self, repository self]) = Inr resp"
    and "json_loads w (resp_text resp) = Inl e"
  shows "fst (fetch_items w self category) = Some e
     \<and> yielded (snd (fetch_items w self category)) = []"
  using assms
  by (simp add: fetch_items_def DockerHubClient_repository_def parse_json_def Let_def)

theorem fetch_items_parse_error_witness:
  "client (example_backend ''examples'' ''html'') = Some example_client
   \<and> http_fetch example_env (urijoin [base_url example_client, RREPOSITORY,
        owner (example_backend ''examples'' ''html''),
        repository (example_backend ''examples'' ''html'')]) = Inr \<lparr>resp_text = ''<html>''\<rparr>
   \<and> json_loads example_env (resp_text \<lparr>resp_text = ''<html>''\<rparr>) = Inl JSONDecodeError
   \<and> fst (fetch_items example_env (example_backend ''examples'' ''html'') ''dockerhub-data'')
       = Some JSONDecodeError
   \<and> yielded (snd (fetch_items example_env (example_backend ''examples'' ''html'')
        ''dockerhub-data'')) = []"
proof -
  have a: "client (example_backend ''examples'' ''html'') = Some example_client"
    by (simp add: example_backend_def)
  have b: "http_fetch example_env (urijoin [base_url example_client, RREPOSITORY,
        owner (example_backend ''examples'' ''html''),
        repository (example_backend ''examples'' ''html'')]) = Inr \<lparr>resp_text = ''<html>''\<rparr>"
    by (simp add: example_defs)
  have c: "json_loads example_env (resp_text \<lparr>resp_text = ''<html>''\<rparr>) = Inl JSONDecodeError"
    by (simp add: example_defs)
  from fetch_items_parse_error [OF a b c] a b c show ?thesis by simp
qed

theorem fetch_items_nan_counterexample:
  "http_fetch example_env ''https://hub.docker.com/v2/repositories/examples/nan''
     = Inr \<lparr>resp_text = nan_body\<rparr>
   \<and> json_loads example_env nan_body = Inr (JObj [(''pull_count'', JNaN)])
   \<and> \<not> json_value (JObj [(''pull_count'', JNaN)])
   \<and> fst (fetch_items example_env (example_backend ''examples'' ''nan'') ''dockerhub-data'')
       = None
   \<and> yielded (snd (fetch_items example_env (example_backend ''examples'' ''nan'')
        ''dockerhub-data''))
       = [JObj [(''pull_count'', JNaN), (''fetched_on'', JFloat 1600000000)]]"
  by (simp add: nan_run)
     (simp add: example_env_def example_http_def example_loads_def nan_body_def nan_payload_def
        python_body_def stamped_body_def)

text \<open>
  C7. \<open>DockerHub.fetch\<close> with a category other than "dockerhub-data" is rejected
  before any request is made: the call ends with an error, and no request and no
  record is among its events. (With the default category the request is made.)
\<close>

theorem fetch_rejects_other_category:
  assumes "category \<noteq> CATEGORY_DOCKERHUB_DATA"
  shows "fst (fetch w self (Some category)) = Some (BackendError category)
     \<and> requests (snd (fetch w self (Some category))) = []
     \<and> yielded (snd (fetch w self (Some category))) = []"
  using assms by (simp add: fetch_def Backend_fetch_def CATEGORIES_def)

theorem fetch_rejects_other_category_witness:
  "''issues'' \<noteq> CATEGORY_DOCKERHUB_DATA
   \<and> fst (fetch example_env (example_backend ''_'' ''python'') (Some ''issues''))
       = Some (BackendError ''issues'')
   \<and> requests (snd (fetch example_env (example_backend ''_'' ''python'') (Some ''issues''))) = []
   \<and> requests (snd (fetch example_env (example_backend ''_'' ''python'') None))
       = [''https://hub.docker.com/v2/repositories/library/python'']"
proof -
  have a: "''issues'' \<noteq> CATEGORY_DOCKERHUB_DATA"
    by (simp add: CATEGORY_DOCKERHUB_DATA_def)
  have b: "requests (snd (fetch example_env (example_backend ''_'' ''python'') None))
       = [''https://hub.docker.com/v2/repositories/library/python'']"
    by (simp add: fetch_def Backend_fetch_def CATEGORIES_def init_client_def example_defs)
  from fetch_rejects_other_category [OF a] a b show ?thesis by simp
qed

text \<open>
  C8. For every record that the backend produces, \<open>metadata_id\<close> is the string
  conversion of the record's \<open>fetched_on\<close> field and \<open>metadata_updated_on\<close> is that
  field; neither raises.
\<close>

theorem metadata_of_record:
  assumes "item \<in> set (yielded (snd (fetch_items w self category)))"
  shows "getitem item ''fetched_on'' = Inr (JFloat (utcnow_timestamp w))
     \<and> metadata_id str item = Inr (str (JFloat (utcnow_timestamp w)))
     \<and> metadata_updated_on item = Inr (JFloat (utcnow_timestamp w))"
proof -
  from fetch_items_yielded [OF assms] obtain kvs where
    "item = JObj (AList.update ''fetched_on'' (JFloat (utcnow_timestamp w)) kvs)"
    by blast
  then show ?thesis
    by (simp add: metadata_id_def metadata_updated_on_def update_conv')
qed

theorem metadata_of_record_witness:
  "JObj [(''name'', JStr ''python''), (''pull_count'', JInt 100), (''fetched_on'', JFloat 1600000000)]
     \<in> set (yielded (snd (fetch_items example_env (example_backend ''_'' ''python'')
          ''dockerhub-data'')))
   \<and> metadata_id example_str (JObj [(''name'', JStr ''python''), (''pull_count'', JInt 100),
        (''fetched_on'', JFloat 1600000000)]) = Inr ''1600000000.0''
   \<and> metadata_updated_on (JObj [(''name'', JStr ''python''), (''pull_count'', JInt 100),
        (''fetched_on'', JFloat 1600000000)]) = Inr (JFloat 1600000000)"
proof -
  have m: "JObj [(''name'', JStr ''python''), (''pull_count'', JInt 100),
        (''fetched_on'', JFloat 1600000000)]
     \<in> set (yielded (snd (fetch_items example_env (example_backend ''_'' ''python'')
          ''dockerhub-data'')))"
    by (simp add: python_run)
  from metadata_of_record [OF m, of example_str] m show ?thesis
    by (simp add: example_env_def example_str_def)
qed

text \<open>
  C10. If the body of the response is valid JSON but not an object (an array, a
  number, a string, a boolean, null), the assignment of \<open>fetched_on\<close> raises TypeError
  and \<open>fetch_items\<close> ends with it, yielding no record.
\<close>

theorem fetch_items_not_a_dict:
  assumes "client self = Some c"
    and "http_fetch w (urijoin [base_url c, RREPOSITORY, owner self, repository self]) = Inr resp"
    and "json_loads w (resp_text resp) = Inr v"
    and "\<not> is_dict v"
  shows "fst (fetch_items w self category) = Some TypeError
     \<and> yielded (snd (fetch_items w self category)) = []"
  using assms
  by (cases v)
     (simp_all add: fetch_items_def DockerHubClient_repository_def parse_json_def Let_def)

theorem fetch_items_not_a_dict_witness:
  "client (example_backend ''examples'' ''array'') = Some example_client
   \<and> http_fetch example_env (urijoin [base_url example_client, RREPOSITORY,
        owner (example_backend ''examples'' ''array''),
        repository (example_backend ''examples'' ''array'')]) = Inr \<lparr>resp_text = ''[1]''\<rparr>
   \<and> json_loads example_env (resp_text \<lparr>resp_text = ''[1]''\<rparr>) = Inr (JArr [JInt 1])
   \<and> \<not> is_dict (JArr [JInt 1])
   \<and> fst (fetch_items example_env (example_backend ''examples'' ''array'') ''dockerhub-data'')
       = Some TypeError
   \<and> yielded (snd (fetch_items example_env (example_backend ''examples'' ''array'')
        ''dockerhub-data'')) = []"
proof -
  have a: "client (example_backend ''examples'' ''array'') = Some example_client"
    by (simp add: example_backend_def)
  have b: "http_fetch example_env (urijoin [base_url example_client, RREPOSITORY,
        owner (example_backend ''examples'' ''array''),
        repository (example_backend ''examples'' ''array'')]) = Inr \<lparr>resp_text = ''[1]''\<rparr>"
    by (simp add: example_defs)
  have c: "json_loads example_env (resp_text \<lparr>resp_text = ''[1]''\<rparr>) = Inr (JArr [JInt 1])"
    by (simp add: example_defs)
  have d: "\<not> is_dict (JArr [JInt 1])" by simp
  from fetch_items_not_a_dict [OF a b c d] a b c d show ?thesis by simp
qed

end
